theory Spec2Isabelle
  imports Main
begin

section \<open>Data model\<close>

text \<open>
  A grid cell and a direction are both JavaScript objects \<^verbatim>\<open>{x: .., y: ..}\<close> with small
  integer fields. The fields are called \<open>cx\<close> and \<open>cy\<close> here, since a record field is a
  constant and \<open>x\<close>, \<open>y\<close> would capture those variable names.
\<close>

record cell =
  cx :: int
  cy :: int

text \<open>The four values of \<^verbatim>\<open>gameState\<close> in SnakeGame.jsx: 'waiting', 'playing', 'paused', 'gameOver'.\<close>

datatype phase = Waiting | Playing | Paused | GameOver

text \<open>
  The \<^verbatim>\<open>useState\<close> fields that App.jsx and SnakeGame.jsx both declare, then the fields
  only one of the components has. \<open>arrowKeyProcessingRef\<close> is the \<^verbatim>\<open>useRef(null)\<close> of
  SnakeGame.jsx: \<open>None\<close> is \<^verbatim>\<open>null\<close>, \<open>Some k\<close> the stored key.
\<close>

record common =
  snake :: "cell list"
  food :: cell
  direction :: cell
  score :: int
  highScore :: int
  gameSpeed :: string
  showSettings :: bool

record game = common +
  gameState :: phase
  arrowKeyProcessingRef :: "string option"

record app = common +
  gameOver :: bool
  isPlaying :: bool

definition GRID_SIZE :: int where
  "GRID_SIZE = 20"

definition INITIAL_SNAKE :: "cell list" where
  "INITIAL_SNAKE = [\<lparr>cx = 10, cy = 10\<rparr>]"

definition INITIAL_FOOD :: cell where
  "INITIAL_FOOD = \<lparr>cx = 15, cy = 15\<rparr>"

definition INITIAL_DIRECTION :: cell where
  "INITIAL_DIRECTION = \<lparr>cx = 0, cy = - 1\<rparr>"

text \<open>The state of a freshly mounted SnakeGame component (the arguments of its \<^verbatim>\<open>useState\<close> calls).\<close>

definition initial :: game where
  "initial = \<lparr>snake = INITIAL_SNAKE, food = INITIAL_FOOD, direction = INITIAL_DIRECTION,
     score = 0, highScore = 0, gameSpeed = ''normal'', showSettings = False,
     gameState = Waiting, arrowKeyProcessingRef = None\<rparr>"

text \<open>The state of a freshly mounted App component.\<close>

definition App_initial :: app where
  "App_initial = \<lparr>snake = INITIAL_SNAKE, food = INITIAL_FOOD, direction = INITIAL_DIRECTION,
     score = 0, highScore = 0, gameSpeed = ''normal'', showSettings = False,
     gameOver = False, isPlaying = False\<rparr>"

section \<open>Food placement\<close>

text \<open>
  \<^verbatim>\<open>generateFood\<close> (the same text in both files) is a do-while loop over
  \<^verbatim>\<open>Math.random()\<close>. The random source is the list of candidate cells it produces, in
  order: each candidate is \<^verbatim>\<open>{x: floor(random * 20), y: floor(random * 20)}\<close>. The loop
  returns the first candidate that no segment of the snake equals; when the candidates
  run out before that, the loop has not returned, which is \<open>None\<close>. The snake is the one
  the callback closed over, which the caller passes.
\<close>

fun generateFood :: "cell list \<Rightarrow> cell list \<Rightarrow> cell option" where
  "generateFood [] snk = None"
| "generateFood (newFood # rnd) snk =
     (if list_ex (\<lambda>segment. cx segment = cx newFood \<and> cy segment = cy newFood) snk
      then generateFood rnd snk
      else Some newFood)"

section \<open>SnakeGame.jsx\<close>

definition resetGame :: "game \<Rightarrow> game" where
  "resetGame s = s\<lparr>snake := INITIAL_SNAKE, food := INITIAL_FOOD,
     direction := INITIAL_DIRECTION, score := 0, gameState := Waiting\<rparr>"

definition startGame :: "game \<Rightarrow> game" where
  "startGame s = (resetGame s)\<lparr>gameState := Playing\<rparr>"

text \<open>Both tests of \<^verbatim>\<open>togglePause\<close> read the \<^verbatim>\<open>gameState\<close> of the render, so at most one fires.\<close>

definition togglePause :: "game \<Rightarrow> game" where
  "togglePause s =
     (if gameState s = Playing then s\<lparr>gameState := Paused\<rparr>
      else if gameState s = Paused then s\<lparr>gameState := Playing\<rparr>
      else s)"

text \<open>The two collision branches of \<^verbatim>\<open>moveSnake\<close> run the same three statements.\<close>

definition endGame :: "game \<Rightarrow> game" where
  "endGame s = s\<lparr>gameState := GameOver,
     highScore := (if score s > highScore s then score s else highScore s)\<rparr>"

text \<open>
  One call of \<^verbatim>\<open>moveSnake\<close>, with the candidates the random source would produce during
  it. The callback reads \<^verbatim>\<open>gameState\<close>, \<^verbatim>\<open>direction\<close>, \<^verbatim>\<open>food\<close>, \<^verbatim>\<open>score\<close>,
  \<^verbatim>\<open>highScore\<close> and, through \<^verbatim>\<open>generateFood\<close>, \<^verbatim>\<open>snake\<close> from the render it was created
  in; the updater passed to \<^verbatim>\<open>setSnake\<close> gets the current snake. The model is one state,
  so both are \<open>snake s\<close>: \<^verbatim>\<open>generateFood\<close> sees the snake before the move.

  On an empty snake \<^verbatim>\<open>{...newSnake[0]}\<close> is \<^verbatim>\<open>{}\<close> and the head's fields are NaN: every
  comparison is false, the head is unshifted and popped again, and the snake stays empty.
  The ref is cleared after \<^verbatim>\<open>setSnake\<close>, whatever the updater did.
\<close>

definition moveSnake :: "cell list \<Rightarrow> game \<Rightarrow> game option" where
  "moveSnake rnd s =
     (if gameState s \<noteq> Playing then Some s
      else case snake s of
        [] \<Rightarrow> Some (s\<lparr>arrowKeyProcessingRef := None\<rparr>)
      | h # _ \<Rightarrow>
          (let head = \<lparr>cx = cx h + cx (direction s), cy = cy h + cy (direction s)\<rparr> in
           if cx head < 0 \<or> cx head \<ge> GRID_SIZE \<or> cy head < 0 \<or> cy head \<ge> GRID_SIZE
           then Some ((endGame s)\<lparr>arrowKeyProcessingRef := None\<rparr>)
           else if list_ex (\<lambda>segment. cx segment = cx head \<and> cy segment = cy head) (snake s)
           then Some ((endGame s)\<lparr>arrowKeyProcessingRef := None\<rparr>)
           else if cx head = cx (food s) \<and> cy head = cy (food s)
           then (case generateFood rnd (snake s) of
                   None \<Rightarrow> None
                 | Some newFood \<Rightarrow>
                     Some (s\<lparr>snake := head # snake s, score := score s + 1,
                              food := newFood, arrowKeyProcessingRef := None\<rparr>))
           else Some (s\<lparr>snake := butlast (head # snake s),
                         arrowKeyProcessingRef := None\<rparr>)))"

definition changeDirection :: "string \<Rightarrow> game \<Rightarrow> game" where
  "changeDirection key s =
     (if key = ''ArrowUp'' then
        (if cy (direction s) \<noteq> 1 then s\<lparr>direction := \<lparr>cx = 0, cy = - 1\<rparr>\<rparr> else s)
      else if key = ''ArrowDown'' then
        (if cy (direction s) \<noteq> - 1 then s\<lparr>direction := \<lparr>cx = 0, cy = 1\<rparr>\<rparr> else s)
      else if key = ''ArrowLeft'' then
        (if cx (direction s) \<noteq> 1 then s\<lparr>direction := \<lparr>cx = - 1, cy = 0\<rparr>\<rparr> else s)
      else if key = ''ArrowRight'' then
        (if cx (direction s) \<noteq> - 1 then s\<lparr>direction := \<lparr>cx = 1, cy = 0\<rparr>\<rparr> else s)
      else s)"

text \<open>\<^verbatim>\<open>handleKeyDown\<close> on an event whose \<^verbatim>\<open>key\<close> is the given string.\<close>

definition handleKeyDown :: "string \<Rightarrow> game \<Rightarrow> game" where
  "handleKeyDown key s =
     (if key = '' '' \<or> key = ''Spacebar'' then togglePause s
      else if gameState s \<noteq> Playing then s
      else if key \<noteq> ''ArrowUp'' \<and> key \<noteq> ''ArrowDown'' \<and> key \<noteq> ''ArrowLeft''
              \<and> key \<noteq> ''ArrowRight'' then s
      else if arrowKeyProcessingRef s \<noteq> None then s
      else changeDirection key (s\<lparr>arrowKeyProcessingRef := Some key\<rparr>))"

text \<open>
  The five callbacks SnakeGame.jsx hands to \<^verbatim>\<open>SwipeHandler\<close> as props. The component
  itself is not part of the sources; a gesture is taken to call the prop of its name once.
  The props carry neither \<^verbatim>\<open>gameState\<close> nor the ref, so the component cannot test them.
\<close>

datatype gesture = SwipeUp | SwipeDown | SwipeLeft | SwipeRight | DoubleTap

fun onGesture :: "gesture \<Rightarrow> game \<Rightarrow> game" where
  "onGesture SwipeUp s = changeDirection ''ArrowUp'' s"
| "onGesture SwipeDown s = changeDirection ''ArrowDown'' s"
| "onGesture SwipeLeft s = changeDirection ''ArrowLeft'' s"
| "onGesture SwipeRight s = changeDirection ''ArrowRight'' s"
| "onGesture DoubleTap s = togglePause s"

text \<open>
  Everything that can happen to a mounted SnakeGame: the interval firing, a key, a gesture
  on the board, and the buttons (START GAME and PLAY AGAIN call \<^verbatim>\<open>startGame\<close>, RESET
  calls \<^verbatim>\<open>resetGame\<close>, PAUSE and RESUME call \<^verbatim>\<open>togglePause\<close>, SETTINGS flips
  \<^verbatim>\<open>showSettings\<close>, a speed button sets \<^verbatim>\<open>gameSpeed\<close>).
\<close>

datatype event =
    Tick "cell list"
  | KeyDown string
  | Gesture gesture
  | ClickStart
  | ClickReset
  | ClickPause
  | ClickSettings
  | ClickSpeed string

fun step :: "event \<Rightarrow> game \<Rightarrow> game option" where
  "step (Tick rnd) s = moveSnake rnd s"
| "step (KeyDown key) s = Some (handleKeyDown key s)"
| "step (Gesture g) s = Some (onGesture g s)"
| "step ClickStart s = Some (startGame s)"
| "step ClickReset s = Some (resetGame s)"
| "step ClickPause s = Some (togglePause s)"
| "step ClickSettings s = Some (s\<lparr>showSettings := \<not> showSettings s\<rparr>)"
| "step (ClickSpeed k) s = Some (s\<lparr>gameSpeed := k\<rparr>)"

fun run :: "event list \<Rightarrow> game \<Rightarrow> game option" where
  "run [] s = Some s"
| "run (e # es) s = (case step e s of None \<Rightarrow> None | Some s' \<Rightarrow> run es s')"

section \<open>App.jsx\<close>

definition App_endGame :: "app \<Rightarrow> app" where
  "App_endGame a = a\<lparr>gameOver := True, isPlaying := False,
     highScore := (if score a > highScore a then score a else highScore a)\<rparr>"

definition App_moveSnake :: "cell list \<Rightarrow> app \<Rightarrow> app option" where
  "App_moveSnake rnd a =
     (if \<not> isPlaying a \<or> gameOver a then Some a
      else case snake a of
        [] \<Rightarrow> Some a
      | h # _ \<Rightarrow>
          (let head = \<lparr>cx = cx h + cx (direction a), cy = cy h + cy (direction a)\<rparr> in
           if cx head < 0 \<or> cx head \<ge> GRID_SIZE \<or> cy head < 0 \<or> cy head \<ge> GRID_SIZE
           then Some (App_endGame a)
           else if list_ex (\<lambda>segment. cx segment = cx head \<and> cy segment = cy head) (snake a)
           then Some (App_endGame a)
           else if cx head = cx (food a) \<and> cy head = cy (food a)
           then (case generateFood rnd (snake a) of
                   None \<Rightarrow> None
                 | Some newFood \<Rightarrow>
                     Some (a\<lparr>snake := head # snake a, score := score a + 10,
                              food := newFood\<rparr>))
           else Some (a\<lparr>snake := butlast (head # snake a)\<rparr>)))"

text \<open>
  \<^verbatim>\<open>resetGame\<close>, \<^verbatim>\<open>startGame\<close> and \<^verbatim>\<open>handleKeyPress\<close> of App.jsx. The key handler has
  no ref: it tests \<^verbatim>\<open>isPlaying\<close> and the axis, and sets the direction.
\<close>

definition App_resetGame :: "app \<Rightarrow> app" where
  "App_resetGame a = a\<lparr>snake := INITIAL_SNAKE, food := INITIAL_FOOD,
     direction := INITIAL_DIRECTION, gameOver := False, score := 0, isPlaying := False\<rparr>"

definition App_startGame :: "app \<Rightarrow> app" where
  "App_startGame a = (App_resetGame a)\<lparr>isPlaying := True\<rparr>"

definition App_handleKeyPress :: "string \<Rightarrow> app \<Rightarrow> app" where
  "App_handleKeyPress key a =
     (if \<not> isPlaying a then a
      else if key = ''ArrowUp'' then
        (if cy (direction a) \<noteq> 1 then a\<lparr>direction := \<lparr>cx = 0, cy = - 1\<rparr>\<rparr> else a)
      else if key = ''ArrowDown'' then
        (if cy (direction a) \<noteq> - 1 then a\<lparr>direction := \<lparr>cx = 0, cy = 1\<rparr>\<rparr> else a)
      else if key = ''ArrowLeft'' then
        (if cx (direction a) \<noteq> 1 then a\<lparr>direction := \<lparr>cx = - 1, cy = 0\<rparr>\<rparr> else a)
      else if key = ''ArrowRight'' then
        (if cx (direction a) \<noteq> - 1 then a\<lparr>direction := \<lparr>cx = 1, cy = 0\<rparr>\<rparr> else a)
      else a)"

text \<open>
  What can happen to a mounted App: the interval, a key, START GAME or PLAY AGAIN, RESET,
  SETTINGS (a button that is disabled while \<^verbatim>\<open>isPlaying\<close>) and a speed button.
\<close>

datatype App_event =
    App_Tick "cell list"
  | App_KeyDown string
  | App_ClickStart
  | App_ClickReset
  | App_ClickSettings
  | App_ClickSpeed string

fun App_step :: "App_event \<Rightarrow> app \<Rightarrow> app option" where
  "App_step (App_Tick rnd) a = App_moveSnake rnd a"
| "App_step (App_KeyDown key) a = Some (App_handleKeyPress key a)"
| "App_step App_ClickStart a = Some (App_startGame a)"
| "App_step App_ClickReset a = Some (App_resetGame a)"
| "App_step App_ClickSettings a =
     Some (if isPlaying a then a else a\<lparr>showSettings := \<not> showSettings a\<rparr>)"
| "App_step (App_ClickSpeed k) a = Some (a\<lparr>gameSpeed := k\<rparr>)"

fun App_run :: "App_event list \<Rightarrow> app \<Rightarrow> app option" where
  "App_run [] a = Some a"
| "App_run (e # es) a = (case App_step e a of None \<Rightarrow> None | Some a' \<Rightarrow> App_run es a')"

section \<open>Vocabulary of the specification\<close>

text \<open>
  The direction each arrow key asks for: the argument of the \<^verbatim>\<open>setDirection\<close> call in
  that key's case of \<^verbatim>\<open>changeDirection\<close>.
\<close>

definition keyDirection :: "string \<Rightarrow> cell option" where
  "keyDirection key =
     (if key = ''ArrowUp'' then Some \<lparr>cx = 0, cy = - 1\<rparr>
      else if key = ''ArrowDown'' then Some \<lparr>cx = 0, cy = 1\<rparr>
      else if key = ''ArrowLeft'' then Some \<lparr>cx = - 1, cy = 0\<rparr>
      else if key = ''ArrowRight'' then Some \<lparr>cx = 1, cy = 0\<rparr>
      else None)"

text \<open>The four unit vectors a Direction can be, and the exact opposite of a vector.\<close>

definition DIRECTIONS :: "cell list" where
  "DIRECTIONS = [\<lparr>cx = 0, cy = - 1\<rparr>, \<lparr>cx = 0, cy = 1\<rparr>, \<lparr>cx = - 1, cy = 0\<rparr>, \<lparr>cx = 1, cy = 0\<rparr>]"

definition opposite :: "cell \<Rightarrow> cell" where
  "opposite d = \<lparr>cx = - cx d, cy = - cy d\<rparr>"

text \<open>
  An App state and a SnakeGame state are the same input of a tick when they hold the same
  snake, food, direction, score and high score, and App is running (\<^verbatim>\<open>isPlaying\<close> and not
  \<^verbatim>\<open>gameOver\<close>) exactly when SnakeGame is 'playing'.
\<close>

definition same_input :: "app \<Rightarrow> game \<Rightarrow> bool" where
  "same_input a g \<longleftrightarrow> snake a = snake g \<and> food a = food g \<and> direction a = direction g
     \<and> score a = score g \<and> highScore a = highScore g
     \<and> ((isPlaying a \<and> \<not> gameOver a) = (gameState g = Playing))"

text \<open>
  The head reaches the food: the snake has a head, the cell one step ahead of it is on the
  grid, is no cell of the snake, and is the food.
\<close>

definition head_reaches_food :: "cell list \<Rightarrow> cell \<Rightarrow> cell \<Rightarrow> bool" where
  "head_reaches_food snk dir fd =
     (case snk of
        [] \<Rightarrow> False
      | h # _ \<Rightarrow>
          (let head = \<lparr>cx = cx h + cx dir, cy = cy h + cy dir\<rparr> in
           0 \<le> cx head \<and> cx head < GRID_SIZE \<and> 0 \<le> cy head \<and> cy head < GRID_SIZE
           \<and> head \<notin> set snk \<and> head = fd))"

section \<open>Concrete states\<close>

text \<open>Scenario A of the specification: the snake right after START GAME.\<close>

definition scenario_A :: game where
  "scenario_A = \<lparr>snake = [\<lparr>cx = 10, cy = 10\<rparr>], food = \<lparr>cx = 15, cy = 15\<rparr>,
     direction = \<lparr>cx = 0, cy = - 1\<rparr>, score = 0, highScore = 0, gameSpeed = ''normal'',
     showSettings = False, gameState = Playing, arrowKeyProcessingRef = None\<rparr>"

text \<open>Scenario B: the head at the left wall, moving left; the score beats the high score.\<close>

definition scenario_B :: game where
  "scenario_B = \<lparr>snake = [\<lparr>cx = 0, cy = 10\<rparr>], food = \<lparr>cx = 15, cy = 15\<rparr>,
     direction = \<lparr>cx = - 1, cy = 0\<rparr>, score = 3, highScore = 2, gameSpeed = ''normal'',
     showSettings = False, gameState = Playing, arrowKeyProcessingRef = None\<rparr>"

text \<open>Scenario C: the food is the cell in front of the head.\<close>

definition scenario_C :: game where
  "scenario_C = \<lparr>snake = [\<lparr>cx = 5, cy = 5\<rparr>, \<lparr>cx = 5, cy = 6\<rparr>], food = \<lparr>cx = 5, cy = 4\<rparr>,
     direction = \<lparr>cx = 0, cy = - 1\<rparr>, score = 0, highScore = 0, gameSpeed = ''normal'',
     showSettings = False, gameState = Playing, arrowKeyProcessingRef = None\<rparr>"

text \<open>A snake of four segments curled in a square, its head about to step onto its tail.\<close>

definition tail_chase :: game where
  "tail_chase = \<lparr>snake = [\<lparr>cx = 5, cy = 5\<rparr>, \<lparr>cx = 6, cy = 5\<rparr>, \<lparr>cx = 6, cy = 6\<rparr>, \<lparr>cx = 5, cy = 6\<rparr>],
     food = \<lparr>cx = 15, cy = 15\<rparr>, direction = \<lparr>cx = 0, cy = 1\<rparr>, score = 3, highScore = 0,
     gameSpeed = ''normal'', showSettings = False, gameState = Playing,
     arrowKeyProcessingRef = None\<rparr>"

text \<open>One tick after START GAME and the right arrow: moving right, the ref cleared.\<close>

definition going_right :: game where
  "going_right = \<lparr>snake = [\<lparr>cx = 11, cy = 10\<rparr>], food = \<lparr>cx = 15, cy = 15\<rparr>,
     direction = \<lparr>cx = 1, cy = 0\<rparr>, score = 0, highScore = 0, gameSpeed = ''normal'',
     showSettings = False, gameState = Playing, arrowKeyProcessingRef = None\<rparr>"

text \<open>A new run whose ref still holds the key of the run before.\<close>

definition stale_ref :: game where
  "stale_ref = \<lparr>snake = [\<lparr>cx = 10, cy = 10\<rparr>], food = \<lparr>cx = 15, cy = 15\<rparr>,
     direction = \<lparr>cx = 0, cy = - 1\<rparr>, score = 0, highScore = 0, gameSpeed = ''normal'',
     showSettings = False, gameState = Playing, arrowKeyProcessingRef = Some ''ArrowLeft''\<rparr>"

text \<open>
  A whole run: START GAME, right for five ticks, down for five ticks onto the food at
  (15,15), where the random source offers (15,15) again; then down into the bottom wall.
\<close>

definition eat_run :: "event list" where
  "eat_run = [ClickStart, KeyDown ''ArrowRight'', Tick [], Tick [], Tick [], Tick [], Tick [],
     KeyDown ''ArrowDown'', Tick [], Tick [], Tick [], Tick [], Tick [\<lparr>cx = 15, cy = 15\<rparr>]]"

definition crash_run :: "event list" where
  "crash_run = eat_run @ [Tick [], Tick [], Tick [], Tick [], Tick []]"

text \<open>
  The same game played in both components: START GAME, right for five ticks, down for four.
  The head is then at (15,14), one step above the food, with score 0.
\<close>

definition approach_run :: "event list" where
  "approach_run = [ClickStart, KeyDown ''ArrowRight'', Tick [], Tick [], Tick [], Tick [], Tick [],
     KeyDown ''ArrowDown'', Tick [], Tick [], Tick [], Tick []]"

definition App_approach_run :: "App_event list" where
  "App_approach_run = [App_ClickStart, App_KeyDown ''ArrowRight'', App_Tick [], App_Tick [],
     App_Tick [], App_Tick [], App_Tick [], App_KeyDown ''ArrowDown'', App_Tick [], App_Tick [],
     App_Tick [], App_Tick []]"

definition before_food :: game where
  "before_food = \<lparr>snake = [\<lparr>cx = 15, cy = 14\<rparr>], food = \<lparr>cx = 15, cy = 15\<rparr>,
     direction = \<lparr>cx = 0, cy = 1\<rparr>, score = 0, highScore = 0, gameSpeed = ''normal'',
     showSettings = False, gameState = Playing, arrowKeyProcessingRef = None\<rparr>"

definition App_before_food :: app where
  "App_before_food = \<lparr>snake = [\<lparr>cx = 15, cy = 14\<rparr>], food = \<lparr>cx = 15, cy = 15\<rparr>,
     direction = \<lparr>cx = 0, cy = 1\<rparr>, score = 0, highScore = 0, gameSpeed = ''normal'',
     showSettings = False, gameOver = False, isPlaying = True\<rparr>"

text \<open>App one tick after START GAME and the right arrow.\<close>

definition App_going_right :: app where
  "App_going_right = \<lparr>snake = [\<lparr>cx = 11, cy = 10\<rparr>], food = \<lparr>cx = 15, cy = 15\<rparr>,
     direction = \<lparr>cx = 1, cy = 0\<rparr>, score = 0, highScore = 0, gameSpeed = ''normal'',
     showSettings = False, gameOver = False, isPlaying = True\<rparr>"

section \<open>Auxiliary facts\<close>

lemmas SnakeGame_defs = initial_def INITIAL_SNAKE_def INITIAL_FOOD_def INITIAL_DIRECTION_def
  GRID_SIZE_def resetGame_def startGame_def togglePause_def endGame_def moveSnake_def
  changeDirection_def handleKeyDown_def Let_def

lemma cell_eq_iff: "(a :: cell) = b \<longleftrightarrow> cx a = cx b \<and> cy a = cy b"
  by (cases a, cases b) simp

lemma cell_eta: "\<lparr>cx = cx c, cy = cy c\<rparr> = (c :: cell)"
  by (cases c) simp

text \<open>The \<^verbatim>\<open>some\<close> test of both collision checks is membership in the list.\<close>

lemma list_ex_cell:
  "list_ex (\<lambda>segment. cx segment = a \<and> cy segment = b) snk \<longleftrightarrow> \<lparr>cx = a, cy = b\<rparr> \<in> set snk"
proof -
  have "(\<lambda>segment. cx segment = a \<and> cy segment = b) = (\<lambda>segment. segment = \<lparr>cx = a, cy = b\<rparr>)"
    by (simp add: fun_eq_iff cell_eq_iff)
  then show ?thesis by (simp add: list_ex_iff)
qed

text \<open>What \<^verbatim>\<open>generateFood\<close> returns is a candidate outside the snake it was given.\<close>

lemma generateFood_Some:
  "generateFood rnd snk = Some c \<Longrightarrow> c \<in> set rnd \<and> c \<notin> set snk"
  by (induction rnd) (auto simp: list_ex_cell cell_eta split: if_splits)

text \<open>The loop returns as soon as the random source offers a free cell.\<close>

lemma generateFood_returns:
  "\<exists>c \<in> set rnd. c \<notin> set snk \<Longrightarrow> \<exists>c. generateFood rnd snk = Some c"
  by (induction rnd) (auto simp: list_ex_cell cell_eta)

lemma run_append:
  "run (es @ fs) s = (case run es s of None \<Rightarrow> None | Some s' \<Rightarrow> run fs s')"
  by (induction es arbitrary: s) (auto split: option.splits)

lemma moveSnake_not_playing:
  "gameState s \<noteq> Playing \<Longrightarrow> moveSnake rnd s = Some s"
  by (simp add: moveSnake_def)

lemma App_moveSnake_not_playing:
  "\<not> (isPlaying a \<and> \<not> gameOver a) \<Longrightarrow> App_moveSnake rnd a = Some a"
  by (auto simp: App_moveSnake_def)

text \<open>The three outcomes of a tick while playing, on a snake with a head.\<close>

lemma moveSnake_collision:
  assumes "gameState s = Playing" and "snake s = h # t"
    and "newHead = \<lparr>cx = cx h + cx (direction s), cy = cy h + cy (direction s)\<rparr>"
    and "cx newHead < 0 \<or> 20 \<le> cx newHead \<or> cy newHead < 0 \<or> 20 \<le> cy newHead
         \<or> newHead \<in> set (snake s)"
  shows "moveSnake rnd s = Some ((endGame s)\<lparr>arrowKeyProcessingRef := None\<rparr>)"
  using assms by (auto simp: moveSnake_def Let_def GRID_SIZE_def list_ex_cell)

lemma moveSnake_eat:
  assumes "gameState s = Playing" and "snake s = h # t"
    and "newHead = \<lparr>cx = cx h + cx (direction s), cy = cy h + cy (direction s)\<rparr>"
    and "0 \<le> cx newHead" "cx newHead < 20" "0 \<le> cy newHead" "cy newHead < 20"
    and "newHead \<notin> set (snake s)" and "newHead = food s"
  shows "moveSnake rnd s = (case generateFood rnd (snake s) of None \<Rightarrow> None
     | Some newFood \<Rightarrow> Some (s\<lparr>snake := newHead # snake s, score := score s + 1,
                              food := newFood, arrowKeyProcessingRef := None\<rparr>))"
  using assms
  by (auto simp: moveSnake_def Let_def GRID_SIZE_def list_ex_cell split: option.splits)

lemma moveSnake_slide:
  assumes "gameState s = Playing" and "snake s = h # t"
    and "newHead = \<lparr>cx = cx h + cx (direction s), cy = cy h + cy (direction s)\<rparr>"
    and "0 \<le> cx newHead" "cx newHead < 20" "0 \<le> cy newHead" "cy newHead < 20"
    and "newHead \<notin> set (snake s)" and "newHead \<noteq> food s"
  shows "moveSnake rnd s
     = Some (s\<lparr>snake := newHead # butlast (snake s), arrowKeyProcessingRef := None\<rparr>)"
  using assms by (auto simp: moveSnake_def Let_def GRID_SIZE_def list_ex_cell)

text \<open>The arrow keys are the four strings \<open>keyDirection\<close> knows.\<close>

lemma keyDirection_cases:
  assumes "keyDirection key = Some d"
  shows "(key = ''ArrowUp'' \<and> d = \<lparr>cx = 0, cy = - 1\<rparr>) \<or> (key = ''ArrowDown'' \<and> d = \<lparr>cx = 0, cy = 1\<rparr>)
       \<or> (key = ''ArrowLeft'' \<and> d = \<lparr>cx = - 1, cy = 0\<rparr>) \<or> (key = ''ArrowRight'' \<and> d = \<lparr>cx = 1, cy = 0\<rparr>)"
  using assms by (simp add: keyDirection_def split: if_splits)

text \<open>
  On a unit-vector direction, the axis test of \<^verbatim>\<open>changeDirection\<close> refuses exactly the
  opposite vector.
\<close>

lemma changeDirection_request:
  assumes "direction s \<in> set DIRECTIONS" and "keyDirection key = Some d"
  shows "changeDirection key s = (if d = opposite (direction s) then s else s\<lparr>direction := d\<rparr>)"
proof -
  have "direction s = \<lparr>cx = 0, cy = - 1\<rparr> \<or> direction s = \<lparr>cx = 0, cy = 1\<rparr>
      \<or> direction s = \<lparr>cx = - 1, cy = 0\<rparr> \<or> direction s = \<lparr>cx = 1, cy = 0\<rparr>"
    using assms(1) by (simp add: DIRECTIONS_def)
  then show ?thesis
    using keyDirection_cases [OF assms(2)]
    by (elim disjE conjE) (simp_all add: changeDirection_def opposite_def)
qed

text \<open>The keyboard path: an arrow key is ignored while the ref is set, and outside play.\<close>

lemma handleKeyDown_ignored_while_buffered:
  assumes "arrowKeyProcessingRef s \<noteq> None" and "keyDirection key = Some d"
  shows "handleKeyDown key s = s"
  using keyDirection_cases [OF assms(2)] assms(1)
  by (elim disjE conjE) (simp_all add: handleKeyDown_def)

lemma handleKeyDown_dropped_unless_playing:
  assumes "gameState s \<noteq> Playing" and "keyDirection key = Some d"
  shows "handleKeyDown key s = s"
  using keyDirection_cases [OF assms(2)] assms(1)
  by (elim disjE conjE) (simp_all add: handleKeyDown_def)

text \<open>Who writes the ref.\<close>

lemma ref_changeDirection:
  "arrowKeyProcessingRef (changeDirection key s) = arrowKeyProcessingRef s"
  by (simp add: changeDirection_def)

lemma ref_togglePause:
  "arrowKeyProcessingRef (togglePause s) = arrowKeyProcessingRef s"
  by (simp add: togglePause_def)

lemma ref_handleKeyDown:
  "arrowKeyProcessingRef s = Some k \<Longrightarrow> arrowKeyProcessingRef (handleKeyDown key s) = Some k"
  by (simp add: handleKeyDown_def ref_togglePause)

lemma ref_onGesture:
  "arrowKeyProcessingRef (onGesture g s) = arrowKeyProcessingRef s"
  by (cases g) (simp_all add: ref_changeDirection ref_togglePause)

lemma ref_cleared_only_by_playing_tick:
  assumes "step e s = Some s'" and "arrowKeyProcessingRef s = Some k"
    and "arrowKeyProcessingRef s' = None"
  shows "(\<exists>rnd. e = Tick rnd) \<and> gameState s = Playing"
proof (cases e)
  case (Tick rnd)
  then show ?thesis
    using assms by (cases "gameState s = Playing") (auto simp: moveSnake_not_playing)
next
  case (KeyDown key)
  then show ?thesis using assms ref_handleKeyDown [of s k key] by auto
next
  case (Gesture g)
  then show ?thesis using assms ref_onGesture [of g s] by auto
next
  case ClickPause
  then show ?thesis using assms ref_togglePause [of s] by auto
qed (use assms in \<open>auto simp: startGame_def resetGame_def\<close>)

lemma ref_cleared_by_playing_tick:
  assumes "gameState s = Playing" and "moveSnake rnd s = Some s'"
  shows "arrowKeyProcessingRef s' = None"
  using assms
  by (auto simp: moveSnake_def Let_def endGame_def split: list.splits if_splits option.splits)

text \<open>The two runs, evaluated.\<close>

lemma run_eat_run:
  "run eat_run initial
   = Some \<lparr>snake = [\<lparr>cx = 15, cy = 15\<rparr>, \<lparr>cx = 15, cy = 14\<rparr>], food = \<lparr>cx = 15, cy = 15\<rparr>,
       direction = \<lparr>cx = 0, cy = 1\<rparr>, score = 1, highScore = 0, gameSpeed = ''normal'',
       showSettings = False, gameState = Playing, arrowKeyProcessingRef = None\<rparr>"
  by (simp add: eat_run_def SnakeGame_defs)

lemma run_crash_run:
  "run crash_run initial
   = Some \<lparr>snake = [\<lparr>cx = 15, cy = 19\<rparr>, \<lparr>cx = 15, cy = 18\<rparr>], food = \<lparr>cx = 15, cy = 15\<rparr>,
       direction = \<lparr>cx = 0, cy = 1\<rparr>, score = 1, highScore = 1, gameSpeed = ''normal'',
       showSettings = False, gameState = GameOver, arrowKeyProcessingRef = None\<rparr>"
  by (simp add: crash_run_def run_append run_eat_run moveSnake_def endGame_def GRID_SIZE_def
        Let_def)

text \<open>The approach to the food, evaluated in both components.\<close>

lemmas App_defs = App_initial_def INITIAL_SNAKE_def INITIAL_FOOD_def INITIAL_DIRECTION_def
  GRID_SIZE_def App_resetGame_def App_startGame_def App_endGame_def App_moveSnake_def
  App_handleKeyPress_def Let_def

lemma run_approach_run: "run approach_run initial = Some before_food"
  by (simp add: approach_run_def before_food_def SnakeGame_defs)

lemma App_run_approach_run: "App_run App_approach_run App_initial = Some App_before_food"
  by (simp add: App_approach_run_def App_before_food_def App_defs)

section \<open>The claims\<close>

text \<open>
  Claim C1: after any tick, also one that places new food because the head reached the
  food, the food is on no cell of the moved snake, the new head included.
  The code does not keep this. \<^verbatim>\<open>generateFood\<close> tests its candidates against the snake
  before the move, which does not hold the new head, so the candidate equal to the cell
  just eaten passes. In the run below, played from the initial state, the food comes to lie
  under the new head; the same happens in one tick from Scenario C when the random source
  offers (5,4).
\<close>

theorem food_placed_under_new_head:
  "(\<exists>s'. run eat_run initial = Some s' \<and> gameState s' = Playing
        \<and> snake s' = [\<lparr>cx = 15, cy = 15\<rparr>, \<lparr>cx = 15, cy = 14\<rparr>]
        \<and> food s' = \<lparr>cx = 15, cy = 15\<rparr> \<and> food s' \<in> set (snake s'))
   \<and> (\<exists>s'. moveSnake [\<lparr>cx = 5, cy = 4\<rparr>] scenario_C = Some s'
        \<and> snake s' = [\<lparr>cx = 5, cy = 4\<rparr>, \<lparr>cx = 5, cy = 5\<rparr>, \<lparr>cx = 5, cy = 6\<rparr>]
        \<and> food s' = \<lparr>cx = 5, cy = 4\<rparr> \<and> food s' \<in> set (snake s'))"
proof (intro conjI)
  show "\<exists>s'. run eat_run initial = Some s' \<and> gameState s' = Playing
        \<and> snake s' = [\<lparr>cx = 15, cy = 15\<rparr>, \<lparr>cx = 15, cy = 14\<rparr>]
        \<and> food s' = \<lparr>cx = 15, cy = 15\<rparr> \<and> food s' \<in> set (snake s')"
    by (simp add: run_eat_run)
  show "\<exists>s'. moveSnake [\<lparr>cx = 5, cy = 4\<rparr>] scenario_C = Some s'
        \<and> snake s' = [\<lparr>cx = 5, cy = 4\<rparr>, \<lparr>cx = 5, cy = 5\<rparr>, \<lparr>cx = 5, cy = 6\<rparr>]
        \<and> food s' = \<lparr>cx = 5, cy = 4\<rparr> \<and> food s' \<in> set (snake s')"
    by (simp add: scenario_C_def moveSnake_def GRID_SIZE_def Let_def)
qed

text \<open>
  Claim C2: in a Playing state, when the new head (head plus direction) has a coordinate
  outside [0, 20) or equals a cell of the body before the move, the tick returns, the phase
  becomes GameOver, the snake, the food and the score stay as they were, and the high
  score becomes the score exactly when the score is greater (else it stays).
\<close>

theorem tick_collision_game_over:
  assumes "gameState s = Playing" and "snake s = h # t"
    and "newHead = \<lparr>cx = cx h + cx (direction s), cy = cy h + cy (direction s)\<rparr>"
    and "cx newHead < 0 \<or> 20 \<le> cx newHead \<or> cy newHead < 0 \<or> 20 \<le> cy newHead
         \<or> newHead \<in> set (snake s)"
  shows "\<exists>s'. moveSnake rnd s = Some s' \<and> gameState s' = GameOver
     \<and> snake s' = snake s \<and> food s' = food s \<and> score s' = score s
     \<and> highScore s' = (if score s > highScore s then score s else highScore s)"
  using moveSnake_collision [OF assms, of rnd] by (simp add: endGame_def)

text \<open>Scenario B, where the score 3 beats the high score 2: the wall ends the run.\<close>

theorem tick_collision_game_over_witness:
  "gameState scenario_B = Playing \<and> snake scenario_B = [\<lparr>cx = 0, cy = 10\<rparr>]
   \<and> (\<exists>s'. moveSnake [] scenario_B = Some s' \<and> gameState s' = GameOver
         \<and> snake s' = [\<lparr>cx = 0, cy = 10\<rparr>] \<and> food s' = \<lparr>cx = 15, cy = 15\<rparr>
         \<and> score s' = 3 \<and> highScore s' = 3)"
  using tick_collision_game_over [where s = scenario_B and h = "\<lparr>cx = 0, cy = 10\<rparr>"
      and t = "[]" and newHead = "\<lparr>cx = - 1, cy = 10\<rparr>" and rnd = "[]"]
  by (simp add: scenario_B_def)

text \<open>
  Claim C3: between two ticks of a Playing state at most one direction request changes
  the direction; after one request is buffered the further ones are ignored, the tick
  clears the buffer, and a request after the tick is accepted again.
  The keyboard path does this (\<open>handleKeyDown_ignored_while_buffered\<close>,
  \<open>ref_cleared_by_playing_tick\<close>), the swipe path does not: its callbacks call
  \<^verbatim>\<open>changeDirection\<close> with no look at the ref. Two swipes after START GAME, with no tick
  between them, both change the direction, and the second one turns the snake from up to
  down; the same two requests as keys change it once.
\<close>

theorem swipes_change_direction_twice_before_a_tick:
  "map_option direction (run [ClickStart] initial) = Some \<lparr>cx = 0, cy = - 1\<rparr>
   \<and> map_option direction (run [ClickStart, Gesture SwipeLeft] initial)
       = Some \<lparr>cx = - 1, cy = 0\<rparr>
   \<and> map_option direction (run [ClickStart, Gesture SwipeLeft, Gesture SwipeDown] initial)
       = Some \<lparr>cx = 0, cy = 1\<rparr>
   \<and> map_option direction (run [ClickStart, KeyDown ''ArrowLeft'', KeyDown ''ArrowDown''] initial)
       = Some \<lparr>cx = - 1, cy = 0\<rparr>"
  by (simp add: SnakeGame_defs)

text \<open>
  Claim C4: in the phases Waiting, Paused and GameOver a direction request leaves the
  whole state as it is, whatever input path delivers it.
  The keyboard path does this (\<open>handleKeyDown_dropped_unless_playing\<close>), the swipe path
  does not: \<^verbatim>\<open>changeDirection\<close> has no test of \<^verbatim>\<open>gameState\<close>. A swipe to the left while
  paused changes the direction, where the left arrow key changes nothing; so does a swipe
  in the initial Waiting state.
\<close>

theorem swipe_while_paused_changes_direction:
  "run [ClickStart, ClickPause] initial = Some (initial\<lparr>gameState := Paused\<rparr>)
   \<and> run [ClickStart, ClickPause, Gesture SwipeLeft] initial
       = Some (initial\<lparr>gameState := Paused, direction := \<lparr>cx = - 1, cy = 0\<rparr>\<rparr>)
   \<and> run [ClickStart, ClickPause, KeyDown ''ArrowLeft''] initial
       = Some (initial\<lparr>gameState := Paused\<rparr>)
   \<and> gameState initial = Waiting
   \<and> onGesture SwipeLeft initial = initial\<lparr>direction := \<lparr>cx = - 1, cy = 0\<rparr>\<rparr>"
  by (simp add: SnakeGame_defs)

text \<open>
  Claim C5: in a Playing state a request for the exact opposite of the current direction
  is refused without being buffered, so that direction and pending buffer are as before;
  a request equal or perpendicular to the direction is accepted.
  The direction is kept (\<open>changeDirection_request\<close>), but the keyboard path buffers the
  refused key: \<^verbatim>\<open>handleKeyDown\<close> stores the key in the ref before it calls
  \<^verbatim>\<open>changeDirection\<close>. A snake moving right that gets the left arrow has the ref set, and
  the up arrow that follows, a legal turn, is dropped until the next tick. The swipe path
  of the same component and the key handler of App.jsx refuse the left request, change
  nothing, and take the turn up.
\<close>

theorem rejected_opposite_key_fills_the_ref:
  "run [ClickStart, KeyDown ''ArrowRight'', Tick []] initial = Some going_right
   \<and> gameState going_right = Playing
   \<and> direction going_right = \<lparr>cx = 1, cy = 0\<rparr>
   \<and> arrowKeyProcessingRef going_right = None
   \<and> handleKeyDown ''ArrowLeft'' going_right
       = going_right\<lparr>arrowKeyProcessingRef := Some ''ArrowLeft''\<rparr>
   \<and> arrowKeyProcessingRef (handleKeyDown ''ArrowLeft'' going_right)
       \<noteq> arrowKeyProcessingRef going_right
   \<and> handleKeyDown ''ArrowUp'' (handleKeyDown ''ArrowLeft'' going_right)
       = handleKeyDown ''ArrowLeft'' going_right
   \<and> handleKeyDown ''ArrowUp'' going_right
       = going_right\<lparr>direction := \<lparr>cx = 0, cy = - 1\<rparr>, arrowKeyProcessingRef := Some ''ArrowUp''\<rparr>
   \<and> onGesture SwipeLeft going_right = going_right
   \<and> onGesture SwipeUp (onGesture SwipeLeft going_right)
       = going_right\<lparr>direction := \<lparr>cx = 0, cy = - 1\<rparr>\<rparr>
   \<and> App_run [App_ClickStart, App_KeyDown ''ArrowRight'', App_Tick []] App_initial
       = Some App_going_right
   \<and> App_handleKeyPress ''ArrowLeft'' App_going_right = App_going_right
   \<and> App_handleKeyPress ''ArrowUp'' (App_handleKeyPress ''ArrowLeft'' App_going_right)
       = App_going_right\<lparr>direction := \<lparr>cx = 0, cy = - 1\<rparr>\<rparr>"
  by (simp add: SnakeGame_defs going_right_def App_defs App_going_right_def)

text \<open>
  Claim C6: in a Playing state with a snake of at least two cells, the self-collision test
  runs on the whole body before the move, the tail counted: when the new head is the cell
  of the tail, the tick ends the run and does not move the snake, also where the move
  would have vacated that cell.
\<close>

theorem tail_cell_counts_as_occupied:
  assumes "gameState s = Playing" and "snake s = h # t" and "2 \<le> length (snake s)"
    and "\<lparr>cx = cx h + cx (direction s), cy = cy h + cy (direction s)\<rparr> = last (snake s)"
  shows "\<exists>s'. moveSnake rnd s = Some s' \<and> gameState s' = GameOver \<and> snake s' = snake s"
proof -
  have "last (snake s) \<in> set (snake s)"
    using assms(2) by (metis last_in_set list.distinct(1))
  then have "moveSnake rnd s = Some ((endGame s)\<lparr>arrowKeyProcessingRef := None\<rparr>)"
    using moveSnake_collision [OF assms(1,2) refl, of rnd] assms(4) by simp
  then show ?thesis by (simp add: endGame_def)
qed

text \<open>The curled snake: the head at (5,5) steps down onto the tail at (5,6), no food near.\<close>

theorem tail_cell_counts_as_occupied_witness:
  "gameState tail_chase = Playing \<and> 2 \<le> length (snake tail_chase)
   \<and> last (snake tail_chase) = \<lparr>cx = 5, cy = 6\<rparr>
   \<and> food tail_chase \<noteq> \<lparr>cx = 5, cy = 6\<rparr>
   \<and> (\<exists>s'. moveSnake [] tail_chase = Some s' \<and> gameState s' = GameOver
         \<and> snake s' = [\<lparr>cx = 5, cy = 5\<rparr>, \<lparr>cx = 6, cy = 5\<rparr>, \<lparr>cx = 6, cy = 6\<rparr>, \<lparr>cx = 5, cy = 6\<rparr>])"
  using tail_cell_counts_as_occupied [where s = tail_chase and h = "\<lparr>cx = 5, cy = 5\<rparr>"
      and t = "[\<lparr>cx = 6, cy = 5\<rparr>, \<lparr>cx = 6, cy = 6\<rparr>, \<lparr>cx = 5, cy = 6\<rparr>]" and rnd = "[]"]
  by (simp add: tail_chase_def)

text \<open>
  Claim C7: in a Playing state whose new head hits neither wall nor body: when the new
  head is the food, the tick adds the per-food reward (1 in SnakeGame.jsx) to the score,
  keeps the tail, so the snake is the new head before the old snake and one longer, and
  places the food \<^verbatim>\<open>generateFood\<close> returns (the tick returns once the random source offers
  a cell off the old snake); when the new head is not the food, the tail is removed, and
  the length, the score and the food stay.
\<close>

theorem tick_grows_on_food_else_slides:
  assumes "gameState s = Playing" and "snake s = h # t"
    and "newHead = \<lparr>cx = cx h + cx (direction s), cy = cy h + cy (direction s)\<rparr>"
    and "0 \<le> cx newHead" "cx newHead < 20" "0 \<le> cy newHead" "cy newHead < 20"
    and "newHead \<notin> set (snake s)"
  shows "(newHead = food s \<and> (\<exists>c \<in> set rnd. c \<notin> set (snake s)) \<longrightarrow>
            (\<exists>s'. moveSnake rnd s = Some s' \<and> score s' = score s + 1
                \<and> snake s' = newHead # snake s \<and> length (snake s') = length (snake s) + 1
                \<and> generateFood rnd (snake s) = Some (food s')
                \<and> food s' \<in> set rnd \<and> food s' \<notin> set (snake s)))
       \<and> (newHead \<noteq> food s \<longrightarrow>
            (\<exists>s'. moveSnake rnd s = Some s' \<and> score s' = score s
                \<and> snake s' = newHead # butlast (snake s) \<and> length (snake s') = length (snake s)
                \<and> food s' = food s))"
proof (intro conjI impI)
  assume eat: "newHead = food s \<and> (\<exists>c \<in> set rnd. c \<notin> set (snake s))"
  then obtain c where c: "generateFood rnd (snake s) = Some c"
    using generateFood_returns by blast
  then have "c \<in> set rnd \<and> c \<notin> set (snake s)"
    by (rule generateFood_Some)
  then show "\<exists>s'. moveSnake rnd s = Some s' \<and> score s' = score s + 1
                \<and> snake s' = newHead # snake s \<and> length (snake s') = length (snake s) + 1
                \<and> generateFood rnd (snake s) = Some (food s')
                \<and> food s' \<in> set rnd \<and> food s' \<notin> set (snake s)"
    using moveSnake_eat [OF assms, of rnd] eat c by simp
next
  assume "newHead \<noteq> food s"
  then show "\<exists>s'. moveSnake rnd s = Some s' \<and> score s' = score s
                \<and> snake s' = newHead # butlast (snake s) \<and> length (snake s') = length (snake s)
                \<and> food s' = food s"
    using moveSnake_slide [OF assms, of rnd] assms(2) by simp
qed

text \<open>
  Scenario C, where the random source offers an occupied cell and then (7,7), and
  Scenario A, where the snake slides.
\<close>

theorem tick_grows_on_food_else_slides_witness:
  "(\<exists>s'. moveSnake [\<lparr>cx = 5, cy = 5\<rparr>, \<lparr>cx = 7, cy = 7\<rparr>] scenario_C = Some s'
        \<and> score s' = 1 \<and> snake s' = [\<lparr>cx = 5, cy = 4\<rparr>, \<lparr>cx = 5, cy = 5\<rparr>, \<lparr>cx = 5, cy = 6\<rparr>]
        \<and> length (snake s') = 3 \<and> food s' = \<lparr>cx = 7, cy = 7\<rparr>)
   \<and> (\<exists>s'. moveSnake [] scenario_A = Some s' \<and> score s' = 0
        \<and> snake s' = [\<lparr>cx = 10, cy = 9\<rparr>] \<and> food s' = \<lparr>cx = 15, cy = 15\<rparr>)"
proof
  have C: "gameState scenario_C = Playing"
    "snake scenario_C = \<lparr>cx = 5, cy = 5\<rparr> # [\<lparr>cx = 5, cy = 6\<rparr>]"
    "\<lparr>cx = 5, cy = 4\<rparr> = \<lparr>cx = cx \<lparr>cx = 5, cy = 5\<rparr> + cx (direction scenario_C),
        cy = cy \<lparr>cx = 5, cy = 5\<rparr> + cy (direction scenario_C)\<rparr>"
    "0 \<le> cx \<lparr>cx = 5, cy = 4\<rparr>" "cx \<lparr>cx = 5, cy = 4\<rparr> < 20"
    "0 \<le> cy \<lparr>cx = 5, cy = 4\<rparr>" "cy \<lparr>cx = 5, cy = 4\<rparr> < 20"
    "\<lparr>cx = 5, cy = 4\<rparr> \<notin> set (snake scenario_C)"
    by (simp_all add: scenario_C_def)
  have eat: "\<lparr>cx = 5, cy = 4\<rparr> = food scenario_C
      \<and> (\<exists>c \<in> set [\<lparr>cx = 5, cy = 5\<rparr>, \<lparr>cx = 7, cy = 7\<rparr>]. c \<notin> set (snake scenario_C))"
    by (simp add: scenario_C_def)
  from tick_grows_on_food_else_slides [OF C, of "[\<lparr>cx = 5, cy = 5\<rparr>, \<lparr>cx = 7, cy = 7\<rparr>]"] eat
  obtain s' where s': "moveSnake [\<lparr>cx = 5, cy = 5\<rparr>, \<lparr>cx = 7, cy = 7\<rparr>] scenario_C = Some s'"
      "score s' = score scenario_C + 1" "snake s' = \<lparr>cx = 5, cy = 4\<rparr> # snake scenario_C"
      "generateFood [\<lparr>cx = 5, cy = 5\<rparr>, \<lparr>cx = 7, cy = 7\<rparr>] (snake scenario_C) = Some (food s')"
    by blast
  have "score s' = 1" "snake s' = [\<lparr>cx = 5, cy = 4\<rparr>, \<lparr>cx = 5, cy = 5\<rparr>, \<lparr>cx = 5, cy = 6\<rparr>]"
      "food s' = \<lparr>cx = 7, cy = 7\<rparr>"
    using s'(2,3,4) by (simp_all add: scenario_C_def)
  then show "\<exists>s'. moveSnake [\<lparr>cx = 5, cy = 5\<rparr>, \<lparr>cx = 7, cy = 7\<rparr>] scenario_C = Some s'
        \<and> score s' = 1 \<and> snake s' = [\<lparr>cx = 5, cy = 4\<rparr>, \<lparr>cx = 5, cy = 5\<rparr>, \<lparr>cx = 5, cy = 6\<rparr>]
        \<and> length (snake s') = 3 \<and> food s' = \<lparr>cx = 7, cy = 7\<rparr>"
    using s'(1) by simp
next
  have A: "gameState scenario_A = Playing"
    "snake scenario_A = \<lparr>cx = 10, cy = 10\<rparr> # []"
    "\<lparr>cx = 10, cy = 9\<rparr> = \<lparr>cx = cx \<lparr>cx = 10, cy = 10\<rparr> + cx (direction scenario_A),
        cy = cy \<lparr>cx = 10, cy = 10\<rparr> + cy (direction scenario_A)\<rparr>"
    "0 \<le> cx \<lparr>cx = 10, cy = 9\<rparr>" "cx \<lparr>cx = 10, cy = 9\<rparr> < 20"
    "0 \<le> cy \<lparr>cx = 10, cy = 9\<rparr>" "cy \<lparr>cx = 10, cy = 9\<rparr> < 20"
    "\<lparr>cx = 10, cy = 9\<rparr> \<notin> set (snake scenario_A)"
    by (simp_all add: scenario_A_def)
  have slide: "\<lparr>cx = 10, cy = 9\<rparr> \<noteq> food scenario_A"
    by (simp add: scenario_A_def)
  from tick_grows_on_food_else_slides [OF A, of "[]"] slide
  obtain s' where s': "moveSnake [] scenario_A = Some s'" "score s' = score scenario_A"
      "snake s' = \<lparr>cx = 10, cy = 9\<rparr> # butlast (snake scenario_A)" "food s' = food scenario_A"
    by blast
  have "score s' = 0" "snake s' = [\<lparr>cx = 10, cy = 9\<rparr>]" "food s' = \<lparr>cx = 15, cy = 15\<rparr>"
    using s'(2,3,4) by (simp_all add: scenario_A_def)
  then show "\<exists>s'. moveSnake [] scenario_A = Some s' \<and> score s' = 0
        \<and> snake s' = [\<lparr>cx = 10, cy = 9\<rparr>] \<and> food s' = \<lparr>cx = 15, cy = 15\<rparr>"
    using s'(1) by simp
qed

text \<open>
  Claim C8: after any sequence of operations from the initial state, RESET gives the
  phase Waiting and the initial snake [(10,10)], food (15,15), direction (0,-1) and score
  0, and the high score is the one from before the reset.
\<close>

theorem reset_after_any_run:
  assumes "run es initial = Some s"
  shows "\<exists>s'. run (es @ [ClickReset]) initial = Some s' \<and> gameState s' = Waiting
     \<and> snake s' = [\<lparr>cx = 10, cy = 10\<rparr>] \<and> food s' = \<lparr>cx = 15, cy = 15\<rparr>
     \<and> direction s' = \<lparr>cx = 0, cy = - 1\<rparr> \<and> score s' = 0
     \<and> highScore s' = highScore s"
  using assms
  by (simp add: run_append resetGame_def INITIAL_SNAKE_def INITIAL_FOOD_def
        INITIAL_DIRECTION_def)

text \<open>A run that ends against the wall with score and high score 1: RESET keeps the 1.\<close>

theorem reset_after_any_run_witness:
  "(\<exists>s. run crash_run initial = Some s \<and> gameState s = GameOver \<and> score s = 1
        \<and> highScore s = 1)
   \<and> (\<exists>s'. run (crash_run @ [ClickReset]) initial = Some s' \<and> gameState s' = Waiting
        \<and> snake s' = [\<lparr>cx = 10, cy = 10\<rparr>] \<and> food s' = \<lparr>cx = 15, cy = 15\<rparr>
        \<and> direction s' = \<lparr>cx = 0, cy = - 1\<rparr> \<and> score s' = 0 \<and> highScore s' = 1)"
  using reset_after_any_run [OF run_crash_run] by (simp add: run_crash_run)

text \<open>
  Claim C9, as stated: on the same input the tick of App.jsx and the tick of SnakeGame.jsx
  give the same successor, the same score increment included.
  It fails one step above the food, a state both components reach by the same game:
  App.jsx adds 10 for the food, SnakeGame.jsx adds 1.
\<close>

theorem App_and_SnakeGame_score_differently:
  "App_run App_approach_run App_initial = Some App_before_food
   \<and> run approach_run initial = Some before_food
   \<and> same_input App_before_food before_food
   \<and> map_option score (App_moveSnake [\<lparr>cx = 7, cy = 7\<rparr>] App_before_food) = Some 10
   \<and> map_option score (moveSnake [\<lparr>cx = 7, cy = 7\<rparr>] before_food) = Some 1"
  by (simp add: run_approach_run App_run_approach_run)
     (simp add: same_input_def App_before_food_def before_food_def App_moveSnake_def
        moveSnake_def GRID_SIZE_def Let_def)

text \<open>
  Claim C9, amended: on the same input and the same random candidates, the two ticks
  return together, and then with the same snake, food, direction and high score and the
  same phase (running or not; game over or not after a tick from play). When the head
  reaches the food in a running game, the score grows by 1 in SnakeGame.jsx and by 10 in
  App.jsx; in every other case the score stays in both.
\<close>

theorem App_and_SnakeGame_steps_agree_up_to_score:
  assumes "same_input a g"
  shows "(App_moveSnake rnd a = None \<longleftrightarrow> moveSnake rnd g = None)
     \<and> (\<forall>a' g'. App_moveSnake rnd a = Some a' \<and> moveSnake rnd g = Some g' \<longrightarrow>
           snake a' = snake g' \<and> food a' = food g' \<and> direction a' = direction g'
         \<and> highScore a' = highScore g'
         \<and> ((isPlaying a' \<and> \<not> gameOver a') = (gameState g' = Playing))
         \<and> (gameState g = Playing \<longrightarrow> gameOver a' = (gameState g' = GameOver))
         \<and> (if gameState g = Playing \<and> head_reaches_food (snake g) (direction g) (food g)
             then score g' = score g + 1 \<and> score a' = score a + 10
             else score g' = score g \<and> score a' = score a))"
proof (cases "gameState g = Playing")
  case False
  then show ?thesis
    using assms by (simp add: same_input_def App_moveSnake_not_playing moveSnake_not_playing)
next
  case True
  then have run: "isPlaying a" "\<not> gameOver a" using assms by (simp_all add: same_input_def)
  show ?thesis
  proof (cases "snake g")
    case Nil
    then show ?thesis
      using assms True run
      by (simp add: same_input_def App_moveSnake_def moveSnake_def head_reaches_food_def)
  next
    case (Cons h t)
    then show ?thesis
      using assms True run
      by (auto simp: same_input_def App_moveSnake_def moveSnake_def Let_def endGame_def
          App_endGame_def head_reaches_food_def list_ex_cell cell_eq_iff
          split: option.splits)
  qed
qed

text \<open>One step above the food, with the candidate (7,7): the scores become 1 and 10.\<close>

theorem App_and_SnakeGame_steps_agree_up_to_score_witness:
  "same_input App_before_food before_food
   \<and> (\<exists>a' g'. App_moveSnake [\<lparr>cx = 7, cy = 7\<rparr>] App_before_food = Some a'
         \<and> moveSnake [\<lparr>cx = 7, cy = 7\<rparr>] before_food = Some g'
         \<and> snake a' = snake g' \<and> food a' = food g' \<and> direction a' = direction g'
         \<and> highScore a' = highScore g'
         \<and> ((isPlaying a' \<and> \<not> gameOver a') = (gameState g' = Playing))
         \<and> score g' = 1 \<and> score a' = 10)"
proof -
  have same: "same_input App_before_food before_food"
    by (simp add: same_input_def App_before_food_def before_food_def)
  have eats: "gameState before_food = Playing
      \<and> head_reaches_food (snake before_food) (direction before_food) (food before_food)"
    by (simp add: before_food_def head_reaches_food_def GRID_SIZE_def)
  obtain a' where a: "App_moveSnake [\<lparr>cx = 7, cy = 7\<rparr>] App_before_food = Some a'"
    by (simp add: App_before_food_def App_moveSnake_def GRID_SIZE_def Let_def)
  obtain g' where g: "moveSnake [\<lparr>cx = 7, cy = 7\<rparr>] before_food = Some g'"
    by (simp add: before_food_def moveSnake_def GRID_SIZE_def Let_def)
  from App_and_SnakeGame_steps_agree_up_to_score [OF same, of "[\<lparr>cx = 7, cy = 7\<rparr>]"] a g eats
  have "snake a' = snake g' \<and> food a' = food g' \<and> direction a' = direction g'
         \<and> highScore a' = highScore g'
         \<and> ((isPlaying a' \<and> \<not> gameOver a') = (gameState g' = Playing))
         \<and> score g' = score before_food + 1 \<and> score a' = score App_before_food + 10"
    by auto
  moreover have "score before_food = 0" "score App_before_food = 0"
    by (simp_all add: before_food_def App_before_food_def)
  ultimately show ?thesis using same a g by simp
qed

text \<open>
  Claim C10: RESET and START GAME leave the ref as it is, and of all events only a tick
  in the phase Playing clears it (and every such tick that returns does). So a key
  buffered in one run survives RESET and START GAME: in the run below the new run starts
  with the left arrow of the old one in the ref, the right arrow is ignored, the first tick
  clears the ref, and the right arrow is taken after it.
\<close>

theorem stale_ref_survives_reset_and_start:
  "arrowKeyProcessingRef (resetGame s) = arrowKeyProcessingRef s
   \<and> arrowKeyProcessingRef (startGame s) = arrowKeyProcessingRef s
   \<and> (\<forall>e s' k. step e s = Some s' \<and> arrowKeyProcessingRef s = Some k
         \<and> arrowKeyProcessingRef s' = None \<longrightarrow> (\<exists>rnd. e = Tick rnd) \<and> gameState s = Playing)
   \<and> (\<forall>rnd s'. gameState s = Playing \<and> moveSnake rnd s = Some s'
         \<longrightarrow> arrowKeyProcessingRef s' = None)
   \<and> (\<exists>s1 s2. run [ClickStart, KeyDown ''ArrowLeft'', ClickReset, ClickStart] initial = Some s1
         \<and> gameState s1 = Playing \<and> direction s1 = \<lparr>cx = 0, cy = - 1\<rparr>
         \<and> arrowKeyProcessingRef s1 = Some ''ArrowLeft''
         \<and> handleKeyDown ''ArrowRight'' s1 = s1
         \<and> moveSnake [] s1 = Some s2 \<and> arrowKeyProcessingRef s2 = None
         \<and> direction (handleKeyDown ''ArrowRight'' s2) = \<lparr>cx = 1, cy = 0\<rparr>)"
proof (intro conjI allI impI)
  show "arrowKeyProcessingRef (resetGame s) = arrowKeyProcessingRef s"
    by (simp add: resetGame_def)
  show "arrowKeyProcessingRef (startGame s) = arrowKeyProcessingRef s"
    by (simp add: startGame_def resetGame_def)
next
  fix e s' k
  assume "step e s = Some s' \<and> arrowKeyProcessingRef s = Some k \<and> arrowKeyProcessingRef s' = None"
  then show "\<exists>rnd. e = Tick rnd" and "gameState s = Playing"
    using ref_cleared_only_by_playing_tick by blast+
next
  fix rnd s'
  assume "gameState s = Playing \<and> moveSnake rnd s = Some s'"
  then show "arrowKeyProcessingRef s' = None"
    using ref_cleared_by_playing_tick by blast
next
  have "run [ClickStart, KeyDown ''ArrowLeft'', ClickReset, ClickStart] initial = Some stale_ref"
    by (simp add: SnakeGame_defs stale_ref_def)
  moreover have "handleKeyDown ''ArrowRight'' stale_ref = stale_ref"
    by (simp add: handleKeyDown_def stale_ref_def)
  moreover have "moveSnake [] stale_ref
      = Some (stale_ref\<lparr>snake := [\<lparr>cx = 10, cy = 9\<rparr>], arrowKeyProcessingRef := None\<rparr>)"
    by (simp add: moveSnake_def GRID_SIZE_def Let_def stale_ref_def)
  moreover have "direction (handleKeyDown ''ArrowRight''
      (stale_ref\<lparr>snake := [\<lparr>cx = 10, cy = 9\<rparr>], arrowKeyProcessingRef := None\<rparr>)) = \<lparr>cx = 1, cy = 0\<rparr>"
    by (simp add: handleKeyDown_def changeDirection_def stale_ref_def)
  ultimately show "\<exists>s1 s2. run [ClickStart, KeyDown ''ArrowLeft'', ClickReset, ClickStart] initial = Some s1
         \<and> gameState s1 = Playing \<and> direction s1 = \<lparr>cx = 0, cy = - 1\<rparr>
         \<and> arrowKeyProcessingRef s1 = Some ''ArrowLeft''
         \<and> handleKeyDown ''ArrowRight'' s1 = s1
         \<and> moveSnake [] s1 = Some s2 \<and> arrowKeyProcessingRef s2 = None
         \<and> direction (handleKeyDown ''ArrowRight'' s2) = \<lparr>cx = 1, cy = 0\<rparr>"
    by (simp add: stale_ref_def)
qed

text \<open>
  At the state with the stale ref: RESET and START GAME keep the left arrow in the ref,
  the tick, an event of the phase Playing, clears it.
\<close>

theorem stale_ref_survives_reset_and_start_witness:
  "arrowKeyProcessingRef (resetGame stale_ref) = Some ''ArrowLeft''
   \<and> arrowKeyProcessingRef (startGame stale_ref) = Some ''ArrowLeft''
   \<and> step (Tick []) stale_ref
       = Some (stale_ref\<lparr>snake := [\<lparr>cx = 10, cy = 9\<rparr>], arrowKeyProcessingRef := None\<rparr>)
   \<and> arrowKeyProcessingRef stale_ref = Some ''ArrowLeft''
   \<and> gameState stale_ref = Playing"
proof -
  have tick: "step (Tick []) stale_ref
      = Some (stale_ref\<lparr>snake := [\<lparr>cx = 10, cy = 9\<rparr>], arrowKeyProcessingRef := None\<rparr>)"
    by (simp add: moveSnake_def GRID_SIZE_def Let_def stale_ref_def)
  have ref: "arrowKeyProcessingRef stale_ref = Some ''ArrowLeft''"
    by (simp add: stale_ref_def)
  from stale_ref_survives_reset_and_start [of stale_ref]
  have keep: "arrowKeyProcessingRef (resetGame stale_ref) = arrowKeyProcessingRef stale_ref"
      "arrowKeyProcessingRef (startGame stale_ref) = arrowKeyProcessingRef stale_ref"
    and only: "\<forall>e s' k. step e stale_ref = Some s' \<and> arrowKeyProcessingRef stale_ref = Some k
         \<and> arrowKeyProcessingRef s' = None \<longrightarrow> (\<exists>rnd. e = Tick rnd) \<and> gameState stale_ref = Playing"
    by blast+
  from only have "step (Tick []) stale_ref
        = Some (stale_ref\<lparr>snake := [\<lparr>cx = 10, cy = 9\<rparr>], arrowKeyProcessingRef := None\<rparr>)
      \<and> arrowKeyProcessingRef stale_ref = Some ''ArrowLeft''
      \<and> arrowKeyProcessingRef
          (stale_ref\<lparr>snake := [\<lparr>cx = 10, cy = 9\<rparr>], arrowKeyProcessingRef := None\<rparr>) = None
      \<longrightarrow> (\<exists>rnd. Tick [] = Tick rnd) \<and> gameState stale_ref = Playing"
    by blast
  with tick ref have "gameState stale_ref = Playing"
    by simp
  with keep tick ref show ?thesis by simp
qed

end
